theory Spec2Isabelle
  imports Main "HOL-Library.Word"
begin

section \<open>Data model\<close>

text \<open>
  The position engine of \<^verbatim>\<open>src/xiangqi.ts\<close>. Its collaborators (\<^verbatim>\<open>types.js\<close>,
  \<^verbatim>\<open>util.js\<close>, \<^verbatim>\<open>squareSet.js\<close>, \<^verbatim>\<open>board.js\<close>, \<^verbatim>\<open>setup.js\<close>, \<^verbatim>\<open>attacks.js\<close>) are not
  among the sources. The small ones are modelled from the specification; the attack
  generators of \<^verbatim>\<open>attacks.js\<close> are a parameter of every function that reads them.
\<close>

text \<open>Modelled from the spec: \<^verbatim>\<open>types.js\<close> is missing. Section 3: a square is an integer
  index into a grid of 90 cells; colours, roles, pieces, moves and outcomes as listed there.\<close>

type_synonym square = int

type_synonym squareSet = "square set"

datatype color = Red | Black

datatype role = King | Advisor | Elephant | Horse | Chariot | Cannon | Pawn

datatype rules = XiangqiRules

record piece =
  color :: color
  role :: role

text \<open>The fields \<open>from\<close> and \<open>to\<close> of a move; \<open>from\<close> is a reserved word here.\<close>

record move =
  from_sq :: square
  to_sq :: square

record outcome =
  winner :: "color option"

definition COLORS :: "color list" where
  "COLORS = [Red, Black]"

definition ROLES :: "role list" where
  "ROLES = [King, Advisor, Elephant, Horse, Chariot, Cannon, Pawn]"

text \<open>Modelled from the spec: \<^verbatim>\<open>util.js\<close> is missing. \<open>opposite\<close> is the other colour,
  \<open>squareFile\<close> the file of a square on a board of 9 files. The test \<open>defined\<close> against
  \<^verbatim>\<open>undefined\<close> is a case distinction on an option.\<close>

fun opposite :: "color \<Rightarrow> color" where
  "opposite Red = Black"
| "opposite Black = Red"

definition squareFile :: "square \<Rightarrow> int" where
  "squareFile s = s mod 9"

subsection \<open>Square sets\<close>

text \<open>Modelled from the spec: \<^verbatim>\<open>squareSet.js\<close> is missing. Section 1 and 6: a bitboard is
  a set of squares with set algebra, membership, cardinality, first and last element and
  iteration in ascending order; it is built from a list of squares or from raw bit
  patterns (three words of 32 bits, squares 0 to 31, 32 to 63 and 64 to 89).\<close>

definition ALL_SQUARES :: "square list" where
  "ALL_SQUARES = [0..89]"

definition squares :: squareSet where
  "squares = set ALL_SQUARES"

text \<open>Iteration over a bitboard: its squares in ascending order.\<close>

definition squares_of :: "squareSet \<Rightarrow> square list" where
  "squares_of A = filter (\<lambda>s. s \<in> A) ALL_SQUARES"

definition first :: "squareSet \<Rightarrow> square option" where
  "first A = (case squares_of A of [] \<Rightarrow> None | s # _ \<Rightarrow> Some s)"

definition last_sq :: "squareSet \<Rightarrow> square option" where
  "last_sq A = (case rev (squares_of A) of [] \<Rightarrow> None | s # _ \<Rightarrow> Some s)"

definition singleSquare :: "squareSet \<Rightarrow> square option" where
  "singleSquare A = (case squares_of A of [s] \<Rightarrow> Some s | _ \<Rightarrow> None)"

definition size_sq :: "squareSet \<Rightarrow> nat" where
  "size_sq A = length (squares_of A)"

definition complement :: "squareSet \<Rightarrow> squareSet" where
  "complement A = squares - A"

definition fromSquares :: "square list \<Rightarrow> squareSet" where
  "fromSquares xs = set xs"

definition SquareSet_new :: "32 word \<Rightarrow> 32 word \<Rightarrow> 32 word \<Rightarrow> squareSet" where
  "SquareSet_new lo mid hi =
     set (filter (\<lambda>s. if s < 32 then bit lo (nat s)
                      else if s < 64 then bit mid (nat (s - 32))
                      else bit hi (nat (s - 64))) ALL_SQUARES)"

text \<open>The back rank of a colour: red's home rows are at the low end of the numbering.\<close>

fun backrank :: "color \<Rightarrow> squareSet" where
  "backrank Red = set [0..8]"
| "backrank Black = set [81..89]"

subsection \<open>The board\<close>

text \<open>Modelled from the spec: \<^verbatim>\<open>board.js\<close> is missing. Section 3: a mapping from squares to
  an optional piece, with the bitboards \<open>occupied\<close>, \<open>board[color]\<close> and \<open>board[role]\<close>
  derived from it; section 6: \<open>get\<close>, \<open>take\<close> (remove and return the piece), \<open>set\<close>
  (place, returning the piece that stood there), \<open>kingOf\<close>, \<open>clone\<close>.\<close>

type_synonym board = "square \<Rightarrow> piece option"

definition occupied :: "board \<Rightarrow> squareSet" where
  "occupied b = Set.filter (\<lambda>s. b s \<noteq> None) squares"

definition by_color :: "board \<Rightarrow> color \<Rightarrow> squareSet" where
  "by_color b c = Set.filter (\<lambda>s. case b s of None \<Rightarrow> False | Some p \<Rightarrow> color p = c) squares"

definition by_role :: "board \<Rightarrow> role \<Rightarrow> squareSet" where
  "by_role b r = Set.filter (\<lambda>s. case b s of None \<Rightarrow> False | Some p \<Rightarrow> role p = r) squares"

definition pieces :: "board \<Rightarrow> color \<Rightarrow> role \<Rightarrow> squareSet" where
  "pieces b c r = by_color b c \<inter> by_role b r"

definition kingOf :: "board \<Rightarrow> color \<Rightarrow> square option" where
  "kingOf b c = singleSquare (pieces b c King)"

definition get_piece :: "board \<Rightarrow> square \<Rightarrow> piece option" where
  "get_piece b s = b s"

definition take_piece :: "board \<Rightarrow> square \<Rightarrow> piece option \<times> board" where
  "take_piece b s = (b s, b(s := None))"

definition set_piece :: "board \<Rightarrow> square \<Rightarrow> piece \<Rightarrow> piece option \<times> board" where
  "set_piece b s p = (b s, b(s \<mapsto> p))"

definition clone_board :: "board \<Rightarrow> board" where
  "clone_board b = b"

definition boardEquals :: "board \<Rightarrow> board \<Rightarrow> bool" where
  "boardEquals l r = list_all (\<lambda>s. l s = r s) ALL_SQUARES"

subsection \<open>Attack generators\<close>

text \<open>\<^verbatim>\<open>attacks.js\<close> is missing: the forward attack generators, the step validity test, the
  squares between two squares and the zone tables are taken as a parameter.\<close>

record attack_tables =
  chariotAttacks :: "square \<Rightarrow> squareSet \<Rightarrow> squareSet"
  cannonAttacks :: "square \<Rightarrow> squareSet \<Rightarrow> squareSet"
  elephantAttacks :: "color \<Rightarrow> square \<Rightarrow> squareSet \<Rightarrow> squareSet"
  advisorAttacks :: "color \<Rightarrow> square \<Rightarrow> squareSet"
  kingAttacks :: "color \<Rightarrow> square \<Rightarrow> squareSet"
  attacks :: "piece \<Rightarrow> square \<Rightarrow> squareSet \<Rightarrow> squareSet"
  isValidStep :: "square \<Rightarrow> square \<Rightarrow> bool"
  between :: "square \<Rightarrow> square \<Rightarrow> squareSet"
  KING_SQUARES :: "color \<Rightarrow> square list"
  ADVISOR_SQUARES :: "color \<Rightarrow> square list"
  ELEPHANT_SQUARES :: "color \<Rightarrow> square list"

section \<open>The position engine\<close>

datatype IllegalSetup =
  Empty | OppositeCheck | Kings | Advisors | Elephants | Horses | Chariots | Cannons
  | Pawns | FacingKings

text \<open>\<open>PIECE_SPECS\<close>: the largest number of pieces of a role, the squares forbidden to it
  and the error it raises.\<close>

fun maxNum :: "role \<Rightarrow> nat" where
  "maxNum King = 1"
| "maxNum Advisor = 2"
| "maxNum Elephant = 2"
| "maxNum Horse = 2"
| "maxNum Chariot = 2"
| "maxNum Cannon = 2"
| "maxNum Pawn = 5"

fun forbidden_squares :: "attack_tables \<Rightarrow> role \<Rightarrow> color \<Rightarrow> squareSet" where
  "forbidden_squares G King c = complement (fromSquares (KING_SQUARES G c))"
| "forbidden_squares G Advisor c = complement (fromSquares (ADVISOR_SQUARES G c))"
| "forbidden_squares G Elephant c = complement (fromSquares (ELEPHANT_SQUARES G c))"
| "forbidden_squares G Horse c = {}"
| "forbidden_squares G Chariot c = {}"
| "forbidden_squares G Cannon c = {}"
| "forbidden_squares G Pawn Red = complement (SquareSet_new 0xa8000000 0xfffff55a 0x03ffffff)"
| "forbidden_squares G Pawn Black = complement (SquareSet_new 0xffffffff 0x556abfff 0x0)"

fun err :: "role \<Rightarrow> IllegalSetup" where
  "err King = Kings"
| "err Advisor = Advisors"
| "err Elephant = Elephants"
| "err Horse = Horses"
| "err Chariot = Chariots"
| "err Cannon = Cannons"
| "err Pawn = Pawns"

definition HORSE_DIR_INV_BLOCKERS :: "(int \<times> int) list" where
  "HORSE_DIR_INV_BLOCKERS =
     [(-19, -10), (-17, -8), (-11, -10), (7, 8), (-7, -8), (11, 10), (17, 8), (19, 10)]"

text \<open>A square outside the board is in no bitboard, so the test on the blocker holds
  there; the destination is then left to \<open>isValidStep\<close>.\<close>

definition horseInvAttacks :: "attack_tables \<Rightarrow> square \<Rightarrow> squareSet \<Rightarrow> squareSet" where
  "horseInvAttacks G square occ =
     fold (\<lambda>dir_blocker range.
             if square + snd dir_blocker \<notin> occ then
               (let dest = square + fst dir_blocker
                in if isValidStep G square dest then insert dest range else range)
             else range)
          HORSE_DIR_INV_BLOCKERS {}"

fun PAWN_INV_DIRS :: "color \<Rightarrow> square \<Rightarrow> int list" where
  "PAWN_INV_DIRS Red sq = (if sq \<ge> 45 then [-1, -9, 1] else [-9])"
| "PAWN_INV_DIRS Black sq = (if sq < 45 then [-1, 9, 1] else [9])"

definition pawnInvAttacks :: "attack_tables \<Rightarrow> color \<Rightarrow> square \<Rightarrow> squareSet" where
  "pawnInvAttacks G c square =
     fold (\<lambda>dir range.
             let dest = square + dir
             in if isValidStep G square dest then insert dest range else range)
          (PAWN_INV_DIRS c square) {}"

text \<open>The argument of the final \<open>intersect\<close> of \<open>attacksTo\<close>: the union of the seven
  intersections, one for each role.\<close>

definition roleAttackers :: "attack_tables \<Rightarrow> square \<Rightarrow> color \<Rightarrow> board \<Rightarrow> squareSet \<Rightarrow> squareSet" where
  "roleAttackers G square attacker b occ =
     chariotAttacks G square occ \<inter> by_role b Chariot
     \<union> horseInvAttacks G square occ \<inter> by_role b Horse
     \<union> elephantAttacks G attacker square occ \<inter> by_role b Elephant
     \<union> advisorAttacks G attacker square \<inter> by_role b Advisor
     \<union> kingAttacks G attacker square \<inter> by_role b King
     \<union> cannonAttacks G square occ \<inter> by_role b Cannon
     \<union> pawnInvAttacks G attacker square \<inter> by_role b Pawn"

definition attacksTo :: "attack_tables \<Rightarrow> square \<Rightarrow> color \<Rightarrow> board \<Rightarrow> squareSet \<Rightarrow> squareSet" where
  "attacksTo G square attacker b occ = by_color b attacker \<inter> roleAttackers G square attacker b occ"

record Context =
  king :: "square option"
  checkers :: squareSet

record position =
  board :: board
  turn :: color
  halfmoves :: nat
  fullmoves :: nat

text \<open>Modelled from the spec: \<^verbatim>\<open>setup.js\<close> is missing. A setup has the four fields of a
  position (raw board, turn and counters).\<close>

type_synonym Setup = position

definition setupUnchecked :: "Setup \<Rightarrow> position" where
  "setupUnchecked s =
     \<lparr>board = clone_board (board s), turn = turn s, halfmoves = halfmoves s,
      fullmoves = fullmoves s\<rparr>"

definition attackers :: "attack_tables \<Rightarrow> position \<Rightarrow> square \<Rightarrow> color \<Rightarrow> squareSet \<Rightarrow> squareSet" where
  "attackers G pos square attacker occ = attacksTo G square attacker (board pos) occ"

definition ctx :: "attack_tables \<Rightarrow> position \<Rightarrow> Context" where
  "ctx G pos =
     (case kingOf (board pos) (turn pos) of
        None \<Rightarrow> \<lparr>king = None, checkers = {}\<rparr>
      | Some k \<Rightarrow>
          \<lparr>king = Some k,
           checkers = attackers G pos k (opposite (turn pos)) (occupied (board pos))\<rparr>)"

text \<open>\<open>ctx = ctx || this.ctx()\<close>: the context the caller passed, or the current one.\<close>

definition ctx_or :: "attack_tables \<Rightarrow> position \<Rightarrow> Context option \<Rightarrow> Context" where
  "ctx_or G pos c = (case c of Some x \<Rightarrow> x | None \<Rightarrow> ctx G pos)"

definition clone :: "position \<Rightarrow> position" where
  "clone pos =
     \<lparr>board = clone_board (board pos), turn = turn pos, halfmoves = halfmoves pos,
      fullmoves = fullmoves pos\<rparr>"

text \<open>The test of the inner loop of \<open>validate\<close>: too many pieces of the role, or one
  of them on a forbidden square.\<close>

definition violates :: "attack_tables \<Rightarrow> board \<Rightarrow> color \<Rightarrow> role \<Rightarrow> bool" where
  "violates G b c r =
     (let p = pieces b c r
      in size_sq p > maxNum r \<or> p \<inter> forbidden_squares G r c \<noteq> {})"

fun validate_roles :: "attack_tables \<Rightarrow> board \<Rightarrow> color \<Rightarrow> role list \<Rightarrow> IllegalSetup option" where
  "validate_roles G b c [] = None"
| "validate_roles G b c (r # rs) =
     (if violates G b c r then Some (err r) else validate_roles G b c rs)"

fun validate_colors :: "attack_tables \<Rightarrow> board \<Rightarrow> color list \<Rightarrow> IllegalSetup option" where
  "validate_colors G b [] = None"
| "validate_colors G b (c # cs) =
     (case validate_roles G b c ROLES of
        Some e \<Rightarrow> Some e
      | None \<Rightarrow> validate_colors G b cs)"

definition validate :: "attack_tables \<Rightarrow> position \<Rightarrow> IllegalSetup + unit" where
  "validate G pos =
     (if occupied (board pos) = {} then Inl Empty
      else
        (case kingOf (board pos) (turn pos) of
           None \<Rightarrow> Inl Kings
         | Some ourKing \<Rightarrow>
             (case kingOf (board pos) (opposite (turn pos)) of
                None \<Rightarrow> Inl Kings
              | Some otherKing \<Rightarrow>
                  if squareFile ourKing = squareFile otherKing
                     \<and> between G ourKing otherKing \<inter> occupied (board pos) = {}
                  then Inl FacingKings
                  else if attackers G pos otherKing (turn pos) (occupied (board pos)) \<noteq> {}
                  then Inl OppositeCheck
                  else (case validate_colors G (board pos) COLORS of
                          Some e \<Rightarrow> Inl e
                        | None \<Rightarrow> Inr ()))))"

definition pseudoDests :: "attack_tables \<Rightarrow> position \<Rightarrow> piece \<Rightarrow> square \<Rightarrow> squareSet" where
  "pseudoDests G pos p square =
     (let pseudo = attacks G p square (occupied (board pos))
      in pseudo - by_color (board pos) (turn pos))"

text \<open>\<open>first()\<close> and \<open>last()\<close> of an empty king bitboard are \<^verbatim>\<open>undefined\<close>, whose file is
  not a number and equals nothing: the comparison of the files is then false.\<close>

definition isFacingKings :: "attack_tables \<Rightarrow> position \<Rightarrow> bool" where
  "isFacingKings G pos =
     (case first (by_role (board pos) King) of
        None \<Rightarrow> False
      | Some ourKing \<Rightarrow>
          (case last_sq (by_role (board pos) King) of
             None \<Rightarrow> False
           | Some otherKing \<Rightarrow>
               squareFile ourKing = squareFile otherKing
               \<and> between G ourKing otherKing \<inter> occupied (board pos) = {}))"

definition isCheck :: "attack_tables \<Rightarrow> position \<Rightarrow> Context option \<Rightarrow> bool" where
  "isCheck G pos c = (checkers (ctx_or G pos c) \<noteq> {})"

text \<open>The body of the loop of \<open>dests\<close>: the clone on which the move is tried.\<close>

definition tryMove :: "position \<Rightarrow> square \<Rightarrow> square \<Rightarrow> piece \<Rightarrow> position" where
  "tryMove pos square to p =
     (let newPos = clone pos;
          b1 = snd (take_piece (board newPos) square);
          b2 = snd (set_piece b1 to p)
      in newPos\<lparr>board := b2\<rparr>)"

definition dests :: "attack_tables \<Rightarrow> position \<Rightarrow> square \<Rightarrow> Context option \<Rightarrow> squareSet" where
  "dests G pos square c =
     (case get_piece (board pos) square of
        None \<Rightarrow> {}
      | Some p \<Rightarrow>
          if color p \<noteq> turn pos then {}
          else
            (let pseudo = pseudoDests G pos p square
             in fold (\<lambda>to acc.
                        let newPos = tryMove pos square to p
                        in if isCheck G newPos None \<or> isFacingKings G newPos
                           then acc - {to} else acc)
                     (squares_of pseudo) pseudo))"

definition toSetup :: "position \<Rightarrow> Setup" where
  "toSetup pos =
     \<lparr>board = clone_board (board pos), turn = turn pos,
      halfmoves = min (halfmoves pos) 150,
      fullmoves = min (max (fullmoves pos) 1) 9999\<rparr>"

definition hasInsufficientMaterial :: "position \<Rightarrow> color \<Rightarrow> bool" where
  "hasInsufficientMaterial pos c =
     (if pieces (board pos) c Chariot \<union> pieces (board pos) c Horse \<noteq> {} then False
      else if pieces (board pos) c Cannon \<noteq> {}
      then by_role (board pos) Advisor = {} \<and> by_role (board pos) Pawn = {}
      else pieces (board pos) c Pawn - backrank c = {})"

definition isInsufficientMaterial :: "position \<Rightarrow> bool" where
  "isInsufficientMaterial pos = list_all (\<lambda>c. hasInsufficientMaterial pos c) COLORS"

definition hasDests :: "attack_tables \<Rightarrow> position \<Rightarrow> Context option \<Rightarrow> bool" where
  "hasDests G pos c =
     (let c' = ctx_or G pos c
      in list_ex (\<lambda>square. dests G pos square (Some c') \<noteq> {})
           (squares_of (by_color (board pos) (turn pos))))"

definition isLegal :: "attack_tables \<Rightarrow> position \<Rightarrow> move \<Rightarrow> Context option \<Rightarrow> bool" where
  "isLegal G pos m c = (to_sq m \<in> dests G pos (from_sq m) c)"

definition is50Moves :: "position \<Rightarrow> bool" where
  "is50Moves pos = (halfmoves pos \<ge> 50)"

definition isEnd :: "attack_tables \<Rightarrow> position \<Rightarrow> Context option \<Rightarrow> bool" where
  "isEnd G pos c = (isInsufficientMaterial pos \<or> is50Moves pos \<or> \<not> hasDests G pos c)"

definition isCheckmate :: "attack_tables \<Rightarrow> position \<Rightarrow> Context option \<Rightarrow> bool" where
  "isCheckmate G pos c =
     (let c' = ctx_or G pos c in checkers c' \<noteq> {} \<and> \<not> hasDests G pos (Some c'))"

definition isStalemate :: "attack_tables \<Rightarrow> position \<Rightarrow> Context option \<Rightarrow> bool" where
  "isStalemate G pos c =
     (let c' = ctx_or G pos c in checkers c' = {} \<and> \<not> hasDests G pos (Some c'))"

definition outcome :: "attack_tables \<Rightarrow> position \<Rightarrow> Context option \<Rightarrow> outcome option" where
  "outcome G pos c =
     (let c' = ctx_or G pos c
      in if isCheckmate G pos (Some c') \<or> isStalemate G pos (Some c')
         then Some \<lparr>winner = Some (opposite (turn pos))\<rparr>
         else if isInsufficientMaterial pos \<or> is50Moves pos then Some \<lparr>winner = None\<rparr>
         else None)"

definition allDests :: "attack_tables \<Rightarrow> position \<Rightarrow> Context option \<Rightarrow> (square \<times> squareSet) list" where
  "allDests G pos c =
     (let c' = ctx_or G pos c
      in map (\<lambda>square. (square, dests G pos square (Some c')))
           (squares_of (by_color (board pos) (turn pos))))"

definition play :: "position \<Rightarrow> move \<Rightarrow> position" where
  "play pos m =
     (let turn0 = turn pos;
          pos1 = pos\<lparr>halfmoves := halfmoves pos + 1\<rparr>;
          pos2 = (if turn0 = Black then pos1\<lparr>fullmoves := fullmoves pos1 + 1\<rparr> else pos1);
          pos3 = pos2\<lparr>turn := opposite turn0\<rparr>;
          taken = take_piece (board pos3) (from_sq m);
          pos4 = pos3\<lparr>board := snd taken\<rparr>
      in case fst taken of
           None \<Rightarrow> pos4
         | Some p \<Rightarrow>
             (let placed = set_piece (board pos4) (to_sq m) p;
                  pos5 = pos4\<lparr>board := snd placed\<rparr>
              in case fst placed of
                   Some capture \<Rightarrow> pos5\<lparr>halfmoves := 0\<rparr>
                 | None \<Rightarrow> pos5))"

definition fromSetup :: "attack_tables \<Rightarrow> Setup \<Rightarrow> IllegalSetup + position" where
  "fromSetup G s =
     (let pos = setupUnchecked s
      in case validate G pos of
           Inl e \<Rightarrow> Inl e
         | Inr u \<Rightarrow> Inr pos)"

definition equalsIgnoreMoves :: "position \<Rightarrow> position \<Rightarrow> bool" where
  "equalsIgnoreMoves left right =
     (boardEquals (board left) (board right) \<and> turn left = turn right)"

section \<open>The tables of the standard game\<close>

text \<open>Modelled from the spec: \<^verbatim>\<open>attacks.js\<close> is missing. One instance of the tables, for
  evaluating the engine on concrete positions: 9 files and 10 ranks, red at the low end;
  the palace (files 3 to 5 of the three home ranks) holds king and advisors, elephants
  stay on their side of the river, a chariot slides along files and ranks up to the first
  piece, a cannon slides over empty squares and attacks the first piece behind exactly one
  screen, a horse is blocked by a piece on its leg, a pawn steps forward and, across the
  river, also sideways.\<close>

definition squareRank :: "square \<Rightarrow> int" where
  "squareRank s = s div 9"

definition step_sq :: "int \<times> int \<Rightarrow> square \<Rightarrow> square option" where
  "step_sq d s =
     (let f = squareFile s + fst d; r = squareRank s + snd d
      in if 0 \<le> f \<and> f < 9 \<and> 0 \<le> r \<and> r < 10 then Some (r * 9 + f) else None)"

definition steps :: "(int \<times> int) list \<Rightarrow> square \<Rightarrow> square list" where
  "steps ds s = List.map_filter (\<lambda>d. step_sq d s) ds"

fun slide :: "nat \<Rightarrow> squareSet \<Rightarrow> int \<times> int \<Rightarrow> square \<Rightarrow> square list" where
  "slide 0 occ d s = []"
| "slide (Suc n) occ d s =
     (case step_sq d s of
        None \<Rightarrow> []
      | Some t \<Rightarrow> if t \<in> occ then [t] else t # slide n occ d t)"

fun cannon_slide :: "nat \<Rightarrow> bool \<Rightarrow> squareSet \<Rightarrow> int \<times> int \<Rightarrow> square \<Rightarrow> square list" where
  "cannon_slide 0 screen occ d s = []"
| "cannon_slide (Suc n) screen occ d s =
     (case step_sq d s of
        None \<Rightarrow> []
      | Some t \<Rightarrow>
          if screen then (if t \<in> occ then [t] else cannon_slide n True occ d t)
          else (if t \<in> occ then cannon_slide n True occ d t
                else t # cannon_slide n False occ d t))"

definition ORTHOGONAL :: "(int \<times> int) list" where
  "ORTHOGONAL = [(0, 1), (0, -1), (1, 0), (-1, 0)]"

definition DIAGONAL :: "(int \<times> int) list" where
  "DIAGONAL = [(1, 1), (1, -1), (-1, 1), (-1, -1)]"

definition HORSE_LEGS :: "((int \<times> int) \<times> (int \<times> int) list) list" where
  "HORSE_LEGS =
     [((0, 1), [(1, 2), (-1, 2)]), ((0, -1), [(1, -2), (-1, -2)]),
      ((1, 0), [(2, 1), (2, -1)]), ((-1, 0), [(-2, 1), (-2, -1)])]"

fun std_KING_SQUARES :: "color \<Rightarrow> square list" where
  "std_KING_SQUARES Red = [3, 4, 5, 12, 13, 14, 21, 22, 23]"
| "std_KING_SQUARES Black = [66, 67, 68, 75, 76, 77, 84, 85, 86]"

fun std_ADVISOR_SQUARES :: "color \<Rightarrow> square list" where
  "std_ADVISOR_SQUARES Red = [3, 5, 13, 21, 23]"
| "std_ADVISOR_SQUARES Black = [66, 68, 76, 84, 86]"

fun std_ELEPHANT_SQUARES :: "color \<Rightarrow> square list" where
  "std_ELEPHANT_SQUARES Red = [2, 6, 18, 22, 26, 38, 42]"
| "std_ELEPHANT_SQUARES Black = [47, 51, 63, 67, 71, 83, 87]"

definition std_chariotAttacks :: "square \<Rightarrow> squareSet \<Rightarrow> squareSet" where
  "std_chariotAttacks s occ = set (concat (map (\<lambda>d. slide 10 occ d s) ORTHOGONAL))"

definition std_cannonAttacks :: "square \<Rightarrow> squareSet \<Rightarrow> squareSet" where
  "std_cannonAttacks s occ = set (concat (map (\<lambda>d. cannon_slide 10 False occ d s) ORTHOGONAL))"

definition std_kingAttacks :: "color \<Rightarrow> square \<Rightarrow> squareSet" where
  "std_kingAttacks c s = set (filter (\<lambda>t. t \<in> set (std_KING_SQUARES c)) (steps ORTHOGONAL s))"

definition std_advisorAttacks :: "color \<Rightarrow> square \<Rightarrow> squareSet" where
  "std_advisorAttacks c s = set (filter (\<lambda>t. t \<in> set (std_ADVISOR_SQUARES c)) (steps DIAGONAL s))"

definition std_elephantAttacks :: "color \<Rightarrow> square \<Rightarrow> squareSet \<Rightarrow> squareSet" where
  "std_elephantAttacks c s occ =
     set (concat (map (\<lambda>d. case step_sq d s of
                              None \<Rightarrow> []
                            | Some eye \<Rightarrow>
                                if eye \<in> occ then []
                                else filter (\<lambda>t. t \<in> set (std_ELEPHANT_SQUARES c)) (steps [d] eye))
                      DIAGONAL))"

definition std_horseAttacks :: "square \<Rightarrow> squareSet \<Rightarrow> squareSet" where
  "std_horseAttacks s occ =
     set (concat (map (\<lambda>leg_jumps. case step_sq (fst leg_jumps) s of
                                      None \<Rightarrow> []
                                    | Some leg \<Rightarrow>
                                        if leg \<in> occ then [] else steps (snd leg_jumps) s)
                      HORSE_LEGS))"

fun std_pawnAttacks :: "color \<Rightarrow> square \<Rightarrow> squareSet" where
  "std_pawnAttacks Red s =
     set (steps (if s \<ge> 45 then [(0, 1), (1, 0), (-1, 0)] else [(0, 1)]) s)"
| "std_pawnAttacks Black s =
     set (steps (if s < 45 then [(0, -1), (1, 0), (-1, 0)] else [(0, -1)]) s)"

definition std_attacks :: "piece \<Rightarrow> square \<Rightarrow> squareSet \<Rightarrow> squareSet" where
  "std_attacks p s occ =
     (case role p of
        King \<Rightarrow> std_kingAttacks (color p) s
      | Advisor \<Rightarrow> std_advisorAttacks (color p) s
      | Elephant \<Rightarrow> std_elephantAttacks (color p) s occ
      | Horse \<Rightarrow> std_horseAttacks s occ
      | Chariot \<Rightarrow> std_chariotAttacks s occ
      | Cannon \<Rightarrow> std_cannonAttacks s occ
      | Pawn \<Rightarrow> std_pawnAttacks (color p) s)"

definition std_isValidStep :: "square \<Rightarrow> square \<Rightarrow> bool" where
  "std_isValidStep a b = (0 \<le> b \<and> b < 90 \<and> \<bar>squareFile a - squareFile b\<bar> \<le> 2)"

definition std_between :: "square \<Rightarrow> square \<Rightarrow> squareSet" where
  "std_between a b =
     (if squareFile a = squareFile b
      then set (filter (\<lambda>t. squareFile t = squareFile a) [min a b + 1 .. max a b - 1])
      else if squareRank a = squareRank b then set [min a b + 1 .. max a b - 1]
      else {})"

definition xiangqi_tables :: attack_tables where
  "xiangqi_tables =
     \<lparr>chariotAttacks = std_chariotAttacks, cannonAttacks = std_cannonAttacks,
      elephantAttacks = std_elephantAttacks, advisorAttacks = std_advisorAttacks,
      kingAttacks = std_kingAttacks, attacks = std_attacks, isValidStep = std_isValidStep,
      between = std_between, KING_SQUARES = std_KING_SQUARES,
      ADVISOR_SQUARES = std_ADVISOR_SQUARES, ELEPHANT_SQUARES = std_ELEPHANT_SQUARES\<rparr>"

text \<open>Concrete positions are written as lists of squares with their pieces.\<close>

definition mk_piece :: "color \<Rightarrow> role \<Rightarrow> piece" where
  "mk_piece c r = \<lparr>color = c, role = r\<rparr>"

definition board_of :: "(square \<times> piece) list \<Rightarrow> board" where
  "board_of ps = map_of ps"

definition mk_position :: "(square \<times> piece) list \<Rightarrow> color \<Rightarrow> nat \<Rightarrow> nat \<Rightarrow> position" where
  "mk_position ps t h f = \<lparr>board = board_of ps, turn = t, halfmoves = h, fullmoves = f\<rparr>"

text \<open>The positions on which the theorems below are evaluated.\<close>

definition pos_stalemate :: position where
  "pos_stalemate =
     mk_position [(4, mk_piece Red King), (84, mk_piece Black King),
                  (14, mk_piece Black Chariot)] Red 0 1"

definition pos_checkmate :: position where
  "pos_checkmate =
     mk_position [(4, mk_piece Red King), (84, mk_piece Black King),
                  (40, mk_piece Black Chariot), (41, mk_piece Black Chariot)] Red 0 1"

definition pos_kings :: position where
  "pos_kings = mk_position [(4, mk_piece Red King), (84, mk_piece Black King)] Red 0 1"

definition pos_chariot :: position where
  "pos_chariot =
     mk_position [(4, mk_piece Red King), (84, mk_piece Black King),
                  (0, mk_piece Red Chariot)] Black 7 3"

definition pos_capture :: position where
  "pos_capture =
     mk_position [(4, mk_piece Red King), (84, mk_piece Black King),
                  (0, mk_piece Red Chariot), (27, mk_piece Black Pawn)] Red 5 10"

definition pos_friendly :: position where
  "pos_friendly =
     mk_position [(4, mk_piece Red King), (84, mk_piece Black King),
                  (10, mk_piece Black Chariot), (19, mk_piece Black Pawn)] Red 0 1"

definition pos_cannon :: position where
  "pos_cannon =
     mk_position [(4, mk_piece Red King), (84, mk_piece Black King),
                  (19, mk_piece Red Cannon), (76, mk_piece Black Advisor)] Red 0 1"

definition pos_noking :: position where
  "pos_noking =
     mk_position [(84, mk_piece Black King), (0, mk_piece Red Chariot)] Red 0 1"

definition pos_fifty :: position where
  "pos_fifty =
     mk_position [(4, mk_piece Red King), (84, mk_piece Black King),
                  (49, mk_piece Red Pawn)] Red 50 40"

definition setup_empty :: Setup where
  "setup_empty = mk_position [] Red 0 1"

definition setup_facing :: Setup where
  "setup_facing = mk_position [(4, mk_piece Red King), (85, mk_piece Black King)] Red 0 1"

definition setup_six_pawns :: Setup where
  "setup_six_pawns =
     mk_position [(4, mk_piece Red King), (84, mk_piece Black King),
                  (27, mk_piece Red Pawn), (29, mk_piece Red Pawn), (31, mk_piece Red Pawn),
                  (33, mk_piece Red Pawn), (35, mk_piece Red Pawn), (45, mk_piece Red Pawn)]
       Red 0 1"

section \<open>Bitboards and the board\<close>

lemma set_squares_of: "set (squares_of A) = A \<inter> squares"
  by (auto simp: squares_of_def squares_def)

lemma squares_of_empty: "squares_of {} = []"
  by (simp add: squares_of_def)

lemma by_color_iff: "s \<in> by_color b c \<longleftrightarrow> s \<in> squares \<and> (\<exists>p. b s = Some p \<and> color p = c)"
  by (auto simp: by_color_def split: option.splits)

lemma by_role_iff: "s \<in> by_role b r \<longleftrightarrow> s \<in> squares \<and> (\<exists>p. b s = Some p \<and> role p = r)"
  by (auto simp: by_role_def split: option.splits)

lemma pieces_iff: "s \<in> pieces b c r \<longleftrightarrow> s \<in> squares \<and> b s = Some \<lparr>color = c, role = r\<rparr>"
  by (auto simp: pieces_def by_color_iff by_role_iff)

lemma occupied_iff: "s \<in> occupied b \<longleftrightarrow> s \<in> squares \<and> b s \<noteq> None"
  by (auto simp: occupied_def)

lemma fold_discard:
  "fold (\<lambda>x acc. if bad x then acc - {x} else acc) xs A = A - {x \<in> set xs. bad x}"
  by (induction xs arbitrary: A) auto

lemma dests_eq:
  assumes "get_piece (board P) s = Some p" "color p = turn P"
  shows "dests G P s c =
           pseudoDests G P p s
           - {to \<in> squares. isCheck G (tryMove P s to p) None \<or> isFacingKings G (tryMove P s to p)}"
  using assms by (auto simp: dests_def Let_def fold_discard set_squares_of)

lemma tryMove_simps:
  "board (tryMove P s to p) = (board P)(s := None, to \<mapsto> p)"
  "turn (tryMove P s to p) = turn P"
  by (simp_all add: tryMove_def clone_def clone_board_def take_piece_def set_piece_def Let_def)

lemma isCheck_None:
  "isCheck G P None \<longleftrightarrow>
     (\<exists>k. kingOf (board P) (turn P) = Some k
          \<and> attackers G P k (opposite (turn P)) (occupied (board P)) \<noteq> {})"
  by (auto simp: isCheck_def ctx_or_def ctx_def split: option.splits)

lemma sorted_squares_of: "sorted (squares_of A) \<and> distinct (squares_of A)"
  by (simp add: squares_of_def ALL_SQUARES_def sorted_wrt_filter)

lemma squares_of_pair:
  assumes "A \<inter> squares = {a, b}" "a < b"
  shows "squares_of A = [a, b]"
proof -
  have "set (squares_of A) = set [a, b]" using assms by (simp add: set_squares_of)
  moreover have "sorted [a, b] \<and> distinct [a, b]" using assms by simp
  ultimately show ?thesis
    using sorted_squares_of[of A] sorted_distinct_set_unique by blast
qed

lemma singleSquare_Some: "singleSquare A = Some k \<Longrightarrow> A \<inter> squares = {k}"
proof -
  assume "singleSquare A = Some k"
  then have "squares_of A = [k]"
    by (auto simp: singleSquare_def split: list.splits)
  then have "set (squares_of A) = {k}" by simp
  then show ?thesis by (simp add: set_squares_of)
qed

lemma pieces_subset: "pieces b c r \<subseteq> squares"
  by (auto simp: pieces_iff)

lemma kingOf_Some: "kingOf b c = Some k \<Longrightarrow> pieces b c King = {k}"
  using singleSquare_Some[of "pieces b c King" k] pieces_subset[of b c King]
  by (auto simp: kingOf_def)

lemma by_role_colors: "by_role b r = pieces b Red r \<union> pieces b Black r"
proof -
  have "s \<in> by_role b r \<longleftrightarrow> s \<in> pieces b Red r \<union> pieces b Black r" for s
  proof (cases "b s")
    case None
    then show ?thesis by (simp add: pieces_def by_color_iff by_role_iff)
  next
    case (Some p)
    then show ?thesis
      by (cases "color p") (auto simp: pieces_def by_color_iff by_role_iff)
  qed
  then show ?thesis by blast
qed

lemma two_kings:
  assumes "kingOf b c = Some k1" "kingOf b (opposite c) = Some k2"
  shows "first (by_role b King) = Some (min k1 k2) \<and> last_sq (by_role b King) = Some (max k1 k2)"
proof -
  have p1: "pieces b c King = {k1}" and p2: "pieces b (opposite c) King = {k2}"
    using assms by (simp_all add: kingOf_Some)
  have "k1 \<in> pieces b c King" "k2 \<in> pieces b (opposite c) King" using p1 p2 by simp_all
  then have "b k1 = Some \<lparr>color = c, role = King\<rparr>" "b k2 = Some \<lparr>color = opposite c, role = King\<rparr>"
    and sq: "k1 \<in> squares" "k2 \<in> squares"
    by (simp_all add: pieces_iff)
  then have ne: "k1 \<noteq> k2" by (cases c) auto
  have "by_role b King = {k1, k2}"
    using p1 p2 by (cases c) (auto simp: by_role_colors)
  then have "by_role b King \<inter> squares = {min k1 k2, max k1 k2}"
    using sq by (auto simp: min_def max_def)
  moreover have "min k1 k2 < max k1 k2" using ne by (simp add: min_def max_def)
  ultimately have "squares_of (by_role b King) = [min k1 k2, max k1 k2]"
    by (rule squares_of_pair)
  then show ?thesis by (simp add: first_def last_sq_def)
qed


lemma kingOf_None: "pieces b c King = {} \<Longrightarrow> kingOf b c = None"
  by (simp add: kingOf_def singleSquare_def squares_of_empty)

lemma ctx_or_Some: "ctx_or G P (Some x) = x"
  by (simp add: ctx_or_def)

lemma by_color_subset: "by_color b c \<subseteq> squares"
  by (auto simp: by_color_iff)

lemma kingOf_occupied: "kingOf b c = Some k \<Longrightarrow> k \<in> occupied b"
  using kingOf_Some[of b c k] by (auto simp: occupied_iff pieces_iff set_eq_iff)

lemma setupUnchecked_id: "setupUnchecked s = s"
  by (simp add: setupUnchecked_def clone_board_def)

lemma boardEquals_refl: "boardEquals b b"
  by (simp add: boardEquals_def list_all_iff)

lemma all_roles: "r \<in> set ROLES"
  by (cases r) (simp_all add: ROLES_def)

lemma all_colors: "c \<in> set COLORS"
  by (cases c) (simp_all add: COLORS_def)

section \<open>Legal destinations\<close>

text \<open>
  C1. Every destination square of \<open>dests\<close> passes the test of the loop: on the clone where
  the piece of the side to move is taken from \<open>s\<close> and set on the destination (whatever
  stood there is replaced), \<open>isCheck\<close> and \<open>isFacingKings\<close> are both false. So the king of
  the side that moved, where \<open>kingOf\<close> finds it, has no attacker of the other colour, and
  when both kings are on the board they do not share a file with no piece between them.
  This holds for every position, valid or not.
\<close>

theorem dests_legal:
  assumes "to \<in> dests G P s c" and "to \<in> squares"
  shows "\<exists>p. get_piece (board P) s = Some p \<and> color p = turn P
             \<and> board (tryMove P s to p) = (board P)(s := None, to \<mapsto> p)
             \<and> turn (tryMove P s to p) = turn P
             \<and> \<not> isCheck G (tryMove P s to p) None
             \<and> \<not> isFacingKings G (tryMove P s to p)
             \<and> (\<forall>k. kingOf (board (tryMove P s to p)) (turn P) = Some k \<longrightarrow>
                    attackers G (tryMove P s to p) k (opposite (turn P))
                      (occupied (board (tryMove P s to p))) = {})
             \<and> (\<forall>k1 k2. kingOf (board (tryMove P s to p)) (turn P) = Some k1
                        \<and> kingOf (board (tryMove P s to p)) (opposite (turn P)) = Some k2 \<longrightarrow>
                    \<not> (squareFile k1 = squareFile k2
                       \<and> between G (min k1 k2) (max k1 k2)
                           \<inter> occupied (board (tryMove P s to p)) = {}))"
proof -
  from assms(1) obtain p where p: "get_piece (board P) s = Some p" "color p = turn P"
    by (cases "get_piece (board P) s") (auto simp: dests_def split: if_splits)
  let ?N = "tryMove P s to p"
  from assms p have ok: "\<not> isCheck G ?N None" "\<not> isFacingKings G ?N"
    by (auto simp: dests_eq)
  have chk: "\<forall>k. kingOf (board ?N) (turn P) = Some k \<longrightarrow>
               attackers G ?N k (opposite (turn P)) (occupied (board ?N)) = {}"
    using ok(1) by (auto simp: isCheck_None tryMove_simps(2))
  have fk: "\<forall>k1 k2. kingOf (board ?N) (turn P) = Some k1
                \<and> kingOf (board ?N) (opposite (turn P)) = Some k2 \<longrightarrow>
              \<not> (squareFile k1 = squareFile k2
                 \<and> between G (min k1 k2) (max k1 k2) \<inter> occupied (board ?N) = {})"
  proof (intro allI impI)
    fix k1 k2
    assume "kingOf (board ?N) (turn P) = Some k1 \<and> kingOf (board ?N) (opposite (turn P)) = Some k2"
    then have fl: "first (by_role (board ?N) King) = Some (min k1 k2)"
                  "last_sq (by_role (board ?N) King) = Some (max k1 k2)"
      using two_kings[of "board ?N" "turn P" k1 k2] by simp_all
    have "squareFile (min k1 k2) = squareFile (max k1 k2) \<longleftrightarrow> squareFile k1 = squareFile k2"
      by (auto simp: min_def max_def)
    with ok(2) fl show "\<not> (squareFile k1 = squareFile k2
                 \<and> between G (min k1 k2) (max k1 k2) \<inter> occupied (board ?N) = {})"
      by (simp add: isFacingKings_def)
  qed
  from p ok chk fk show ?thesis
    by (intro exI[of _ p]) (simp add: tryMove_simps)
qed

theorem dests_legal_witness:
  "5 \<in> dests xiangqi_tables pos_kings 4 None \<and> 5 \<in> squares
   \<and> get_piece (board pos_kings) 4 = Some (mk_piece Red King)
   \<and> \<not> isCheck xiangqi_tables (tryMove pos_kings 4 5 (mk_piece Red King)) None
   \<and> \<not> isFacingKings xiangqi_tables (tryMove pos_kings 4 5 (mk_piece Red King))"
proof -
  have h1: "5 \<in> dests xiangqi_tables pos_kings 4 None" by code_simp
  have h2: "(5::int) \<in> squares" by code_simp
  have h3: "get_piece (board pos_kings) 4 = Some (mk_piece Red King)" by code_simp
  from dests_legal[OF h1 h2] h1 h2 h3 show ?thesis by auto
qed

section \<open>Attackers of a square\<close>

text \<open>
  C2, as the claim states it, fails: each of the seven intersections is taken with the
  bitboard of a role, which holds the pieces of both colours. With a black chariot on
  square 10, the union for target square 1 and attacker red holds square 10, which is not
  a red piece; the final intersection removes it.
\<close>

theorem roleAttackers_other_color:
  "10 \<in> roleAttackers xiangqi_tables 1 Red (board pos_friendly) (occupied (board pos_friendly))
   \<and> 10 \<notin> by_color (board pos_friendly) Red
   \<and> roleAttackers xiangqi_tables 1 Red (board pos_friendly) (occupied (board pos_friendly))
      \<noteq> attacksTo xiangqi_tables 1 Red (board pos_friendly) (occupied (board pos_friendly))"
  by code_simp

text \<open>
  C2, amended. The final intersection is what restricts the result to the attacking
  colour: \<open>attacksTo\<close> is the union, over the seven roles, of the role's attack bitboard
  intersected with the pieces of that role and of the attacking colour, and it lies within
  the attacking colour's occupancy.
\<close>

theorem attacksTo_by_pieces:
  "attacksTo G sq c b occ =
     chariotAttacks G sq occ \<inter> pieces b c Chariot
     \<union> horseInvAttacks G sq occ \<inter> pieces b c Horse
     \<union> elephantAttacks G c sq occ \<inter> pieces b c Elephant
     \<union> advisorAttacks G c sq \<inter> pieces b c Advisor
     \<union> kingAttacks G c sq \<inter> pieces b c King
     \<union> cannonAttacks G sq occ \<inter> pieces b c Cannon
     \<union> pawnInvAttacks G c sq \<inter> pieces b c Pawn
   \<and> attacksTo G sq c b occ \<subseteq> by_color b c"
  unfolding attacksTo_def roleAttackers_def pieces_def by blast

section \<open>Pseudo-legal destinations\<close>

text \<open>
  C4. \<open>pseudoDests\<close> removes the squares of the side to move, not those of the colour of
  the piece it is given. In a valid position with red to move, the black chariot on square
  10 has square 19 among its pseudo-legal destinations, where a black pawn stands.
\<close>

theorem pseudoDests_friendly_capture:
  "validate xiangqi_tables pos_friendly = Inr ()
   \<and> turn pos_friendly = Red
   \<and> get_piece (board pos_friendly) 10 = Some (mk_piece Black Chariot)
   \<and> get_piece (board pos_friendly) 19 = Some (mk_piece Black Pawn)
   \<and> 19 \<in> pseudoDests xiangqi_tables pos_friendly (mk_piece Black Chariot) 10"
  by code_simp

text \<open>For a piece of the side to move the squares removed are the friendly ones.\<close>

lemma pseudoDests_side_to_move:
  "color p = turn pos \<Longrightarrow>
   pseudoDests G pos p s = attacks G p s (occupied (board pos)) - by_color (board pos) (color p)"
  by (simp add: pseudoDests_def)

section \<open>Playing a move\<close>

text \<open>
  C5. \<open>play\<close> flips the side to move and increments the fullmove counter exactly when
  black was to move. With no piece on \<open>from\<close> the board is unchanged and the halfmove clock
  is incremented. With a piece on \<open>from\<close> the piece leaves \<open>from\<close> and stands on \<open>to\<close>,
  replacing what stood there; the halfmove clock is zero when a piece was captured and is
  incremented otherwise. So the clock is zero after the move exactly when a piece stood on
  \<open>from\<close> and another piece stood on \<open>to\<close>.
\<close>

theorem play_effect:
  "turn (play pos m) = opposite (turn pos)
   \<and> fullmoves (play pos m) = (if turn pos = Black then fullmoves pos + 1 else fullmoves pos)
   \<and> (case get_piece (board pos) (from_sq m) of
        None \<Rightarrow> board (play pos m) = board pos \<and> halfmoves (play pos m) = halfmoves pos + 1
      | Some p \<Rightarrow>
          board (play pos m) = (board pos)(from_sq m := None, to_sq m \<mapsto> p)
          \<and> halfmoves (play pos m) =
              (if to_sq m \<noteq> from_sq m \<and> get_piece (board pos) (to_sq m) \<noteq> None then 0
               else halfmoves pos + 1))
   \<and> (halfmoves (play pos m) = 0) =
       (get_piece (board pos) (from_sq m) \<noteq> None \<and> to_sq m \<noteq> from_sq m
        \<and> get_piece (board pos) (to_sq m) \<noteq> None)"
  by (auto simp: play_def Let_def take_piece_def set_piece_def get_piece_def split: option.splits)

theorem play_effect_witness:
  "turn (play pos_capture \<lparr>from_sq = 0, to_sq = 27\<rparr>) = Black
   \<and> fullmoves (play pos_capture \<lparr>from_sq = 0, to_sq = 27\<rparr>) = 10
   \<and> halfmoves (play pos_capture \<lparr>from_sq = 0, to_sq = 27\<rparr>) = 0
   \<and> board (play pos_capture \<lparr>from_sq = 0, to_sq = 27\<rparr>)
       = (board pos_capture)(0 := None, 27 \<mapsto> mk_piece Red Chariot)
   \<and> turn (play pos_chariot \<lparr>from_sq = 84, to_sq = 75\<rparr>) = Red
   \<and> fullmoves (play pos_chariot \<lparr>from_sq = 84, to_sq = 75\<rparr>) = 4
   \<and> halfmoves (play pos_chariot \<lparr>from_sq = 84, to_sq = 75\<rparr>) = 8
   \<and> board (play pos_chariot \<lparr>from_sq = 84, to_sq = 75\<rparr>)
       = (board pos_chariot)(84 := None, 75 \<mapsto> mk_piece Black King)
   \<and> turn (play pos_chariot \<lparr>from_sq = 1, to_sq = 2\<rparr>) = Red
   \<and> fullmoves (play pos_chariot \<lparr>from_sq = 1, to_sq = 2\<rparr>) = 4
   \<and> halfmoves (play pos_chariot \<lparr>from_sq = 1, to_sq = 2\<rparr>) = 8
   \<and> board (play pos_chariot \<lparr>from_sq = 1, to_sq = 2\<rparr>) = board pos_chariot"
proof -
  have g1: "get_piece (board pos_capture) 0 = Some (mk_piece Red Chariot)"
    "get_piece (board pos_capture) 27 \<noteq> None"
    by code_simp+
  have g2: "get_piece (board pos_chariot) 84 = Some (mk_piece Black King)"
    "get_piece (board pos_chariot) 75 = None"
    by code_simp+
  have g3: "get_piece (board pos_chariot) 1 = None" by code_simp
  have t1: "turn pos_capture = Red" "fullmoves pos_capture = 10"
    by (simp_all add: pos_capture_def mk_position_def)
  have t2: "turn pos_chariot = Black" "fullmoves pos_chariot = 3" "halfmoves pos_chariot = 7"
    by (simp_all add: pos_chariot_def mk_position_def)
  from play_effect[of pos_capture "\<lparr>from_sq = 0, to_sq = 27\<rparr>"]
       play_effect[of pos_chariot "\<lparr>from_sq = 84, to_sq = 75\<rparr>"]
       play_effect[of pos_chariot "\<lparr>from_sq = 1, to_sq = 2\<rparr>"] g1 g2 g3 t1 t2
  show ?thesis by simp
qed

section \<open>A position without the king of the side to move\<close>

text \<open>
  C10. When the side to move has no king on the board, \<open>ctx\<close> returns no king and an
  empty set of checkers, so \<open>isCheck\<close> and \<open>isCheckmate\<close> are false.
\<close>

theorem no_king_no_check:
  assumes "pieces (board P) (turn P) King = {}"
  shows "ctx G P = \<lparr>king = None, checkers = {}\<rparr> \<and> \<not> isCheck G P None \<and> \<not> isCheckmate G P None"
  using kingOf_None[OF assms]
  by (simp add: ctx_def isCheck_def isCheckmate_def ctx_or_def)

theorem no_king_no_check_witness:
  "pieces (board pos_noking) (turn pos_noking) King = {}
   \<and> ctx xiangqi_tables pos_noking = \<lparr>king = None, checkers = {}\<rparr>
   \<and> \<not> isCheck xiangqi_tables pos_noking None
   \<and> \<not> isCheckmate xiangqi_tables pos_noking None"
proof -
  have h: "pieces (board pos_noking) (turn pos_noking) King = {}" by code_simp
  from no_king_no_check[OF h, of xiangqi_tables] h show ?thesis by simp
qed

section \<open>Insufficient material\<close>

text \<open>
  C3, as the claim states it, fails: with a cannon the code looks at the advisors of both
  colours, not only at those of the colour asked about. Red has a cannon, no chariot, horse
  or advisor, and no pawn is on the board, yet a black advisor makes the answer false.
\<close>

theorem own_advisors_counterexample:
  "pieces (board pos_cannon) Red Chariot \<union> pieces (board pos_cannon) Red Horse = {}
   \<and> pieces (board pos_cannon) Red Cannon \<noteq> {}
   \<and> pieces (board pos_cannon) Red Advisor = {}
   \<and> by_role (board pos_cannon) Pawn = {}
   \<and> \<not> hasInsufficientMaterial pos_cannon Red
   \<and> validate xiangqi_tables pos_cannon = Inr ()"
  by code_simp

text \<open>
  C3, amended. If \<open>c\<close> has a chariot or a horse the answer is false; otherwise, if \<open>c\<close> has
  a cannon, it is true exactly when no advisor and no pawn of either colour is on the
  board; otherwise it is true exactly when every pawn of \<open>c\<close> stands on the back rank of
  \<open>c\<close>.
\<close>

theorem hasInsufficientMaterial_cases:
  "hasInsufficientMaterial pos c =
     (if (\<exists>s\<in>squares. get_piece (board pos) s = Some \<lparr>color = c, role = Chariot\<rparr>
                      \<or> get_piece (board pos) s = Some \<lparr>color = c, role = Horse\<rparr>)
      then False
      else if (\<exists>s\<in>squares. get_piece (board pos) s = Some \<lparr>color = c, role = Cannon\<rparr>)
      then (\<forall>s\<in>squares. \<forall>p. get_piece (board pos) s = Some p \<longrightarrow>
                role p \<noteq> Advisor \<and> role p \<noteq> Pawn)
      else (\<forall>s\<in>squares. get_piece (board pos) s = Some \<lparr>color = c, role = Pawn\<rparr> \<longrightarrow>
                s \<in> backrank c))"
proof -
  have a: "pieces (board pos) c Chariot \<union> pieces (board pos) c Horse \<noteq> {} \<longleftrightarrow>
        (\<exists>s\<in>squares. get_piece (board pos) s = Some \<lparr>color = c, role = Chariot\<rparr>
                      \<or> get_piece (board pos) s = Some \<lparr>color = c, role = Horse\<rparr>)"
    by (auto simp: pieces_iff get_piece_def)
  have b: "pieces (board pos) c Cannon \<noteq> {} \<longleftrightarrow>
        (\<exists>s\<in>squares. get_piece (board pos) s = Some \<lparr>color = c, role = Cannon\<rparr>)"
    by (auto simp: pieces_iff get_piece_def)
  have c: "by_role (board pos) Advisor = {} \<and> by_role (board pos) Pawn = {} \<longleftrightarrow>
        (\<forall>s\<in>squares. \<forall>p. get_piece (board pos) s = Some p \<longrightarrow>
                role p \<noteq> Advisor \<and> role p \<noteq> Pawn)"
    unfolding set_eq_iff by_role_iff get_piece_def by auto
  have d: "pieces (board pos) c Pawn - backrank c = {} \<longleftrightarrow>
        (\<forall>s\<in>squares. get_piece (board pos) s = Some \<lparr>color = c, role = Pawn\<rparr> \<longrightarrow>
                s \<in> backrank c)"
    by (auto simp: pieces_iff get_piece_def)
  show ?thesis
    unfolding hasInsufficientMaterial_def a b c d by simp
qed

theorem hasInsufficientMaterial_cases_witness:
  "\<not> hasInsufficientMaterial pos_chariot Red
   \<and> get_piece (board pos_cannon) 19 = Some \<lparr>color = Red, role = Cannon\<rparr>
   \<and> get_piece (board pos_cannon) 76 = Some \<lparr>color = Black, role = Advisor\<rparr>
   \<and> \<not> hasInsufficientMaterial pos_cannon Red
   \<and> hasInsufficientMaterial pos_kings Red"
proof -
  have g0: "get_piece (board pos_chariot) 0 = Some \<lparr>color = Red, role = Chariot\<rparr>" by code_simp
  have g1: "get_piece (board pos_cannon) 19 = Some \<lparr>color = Red, role = Cannon\<rparr>" by code_simp
  have g2: "get_piece (board pos_cannon) 76 = Some \<lparr>color = Black, role = Advisor\<rparr>" by code_simp
  have s: "(0::int) \<in> squares" "(19::int) \<in> squares" "(76::int) \<in> squares" by code_simp+
  have k: "hasInsufficientMaterial pos_kings Red" by code_simp
  have "\<not> hasInsufficientMaterial pos_chariot Red"
    using hasInsufficientMaterial_cases[of pos_chariot Red] g0 s(1) by auto
  moreover have "\<not> hasInsufficientMaterial pos_cannon Red"
    by code_simp
  ultimately show ?thesis using g1 g2 k by simp
qed

section \<open>Checkmate, stalemate and the outcome\<close>

lemma hasDests_iff:
  "hasDests G P c \<longleftrightarrow> (\<exists>sq \<in> by_color (board P) (turn P). dests G P sq None \<noteq> {})"
  using by_color_subset[of "board P" "turn P"]
  by (auto simp: hasDests_def Let_def list_ex_iff set_squares_of dests_def)

lemma allDests_entries:
  "set (allDests G P c) = (\<lambda>sq. (sq, dests G P sq None)) ` by_color (board P) (turn P)"
proof -
  have "by_color (board P) (turn P) \<inter> squares = by_color (board P) (turn P)"
    using by_color_subset by blast
  then show ?thesis
    by (simp add: allDests_def Let_def set_squares_of dests_def)
qed

text \<open>
  C8. \<open>isCheckmate\<close> and \<open>isStalemate\<close> are never both true, and when one of them is
  true \<open>allDests\<close> has one entry for each square of the side to move, each of them the
  empty set. This holds for every position, valid or not.
\<close>

theorem checkmate_stalemate:
  "\<not> (isCheckmate G P c \<and> isStalemate G P c)
   \<and> (isCheckmate G P c \<or> isStalemate G P c \<longrightarrow>
        map fst (allDests G P c) = squares_of (by_color (board P) (turn P))
        \<and> (\<forall>e \<in> set (allDests G P c). snd e = {}))"
proof -
  have excl: "\<not> (isCheckmate G P c \<and> isStalemate G P c)"
    by (auto simp: isCheckmate_def isStalemate_def Let_def)
  have keys: "map fst (allDests G P c) = squares_of (by_color (board P) (turn P))"
    by (simp add: allDests_def Let_def comp_def)
  have "\<forall>e \<in> set (allDests G P c). snd e = {}" if "isCheckmate G P c \<or> isStalemate G P c"
  proof -
    from that have "\<not> hasDests G P (Some (ctx_or G P c))"
      by (auto simp: isCheckmate_def isStalemate_def Let_def)
    then have "\<forall>sq \<in> by_color (board P) (turn P). dests G P sq None = {}"
      by (simp add: hasDests_iff)
    then show ?thesis by (auto simp: allDests_entries)
  qed
  with excl keys show ?thesis by blast
qed

theorem checkmate_stalemate_witness:
  "isStalemate xiangqi_tables pos_stalemate None
   \<and> \<not> isCheckmate xiangqi_tables pos_stalemate None
   \<and> map fst (allDests xiangqi_tables pos_stalemate None) = [4]
   \<and> map snd (allDests xiangqi_tables pos_stalemate None) = [{}]
   \<and> isCheckmate xiangqi_tables pos_checkmate None
   \<and> \<not> isStalemate xiangqi_tables pos_checkmate None
   \<and> map fst (allDests xiangqi_tables pos_checkmate None) = [4]
   \<and> map snd (allDests xiangqi_tables pos_checkmate None) = [{}]"
proof -
  have h': "isCheckmate xiangqi_tables pos_checkmate None" by code_simp
  have k': "squares_of (by_color (board pos_checkmate) (turn pos_checkmate)) = [4]" by code_simp
  from checkmate_stalemate[of xiangqi_tables pos_checkmate None] h' k'
  have a': "\<not> isStalemate xiangqi_tables pos_checkmate None"
    and b': "map fst (allDests xiangqi_tables pos_checkmate None) = [4]"
    and c': "\<forall>e \<in> set (allDests xiangqi_tables pos_checkmate None). snd e = {}"
    by simp_all
  from b' obtain d' where "allDests xiangqi_tables pos_checkmate None = [(4, d')]"
    by (cases "allDests xiangqi_tables pos_checkmate None") auto
  with c' have e': "map snd (allDests xiangqi_tables pos_checkmate None) = [{}]" by simp
  have h: "isStalemate xiangqi_tables pos_stalemate None" by code_simp
  have k: "squares_of (by_color (board pos_stalemate) (turn pos_stalemate)) = [4]" by code_simp
  from checkmate_stalemate[of xiangqi_tables pos_stalemate None] h k
  have a: "\<not> isCheckmate xiangqi_tables pos_stalemate None"
    and b: "map fst (allDests xiangqi_tables pos_stalemate None) = [4]"
    and c: "\<forall>e \<in> set (allDests xiangqi_tables pos_stalemate None). snd e = {}"
    by simp_all
  from b obtain d where "allDests xiangqi_tables pos_stalemate None = [(4, d)]"
    by (cases "allDests xiangqi_tables pos_stalemate None") auto
  with c have "map snd (allDests xiangqi_tables pos_stalemate None) = [{}]" by simp
  with h a b h' a' b' e' show ?thesis by simp
qed

text \<open>
  C9. \<open>outcome\<close> names the side not to move as the winner when the position is checkmate
  or stalemate; otherwise it is a draw (no winner) when both sides have insufficient
  material or the halfmove clock is at least 50; otherwise there is no outcome.
\<close>

theorem outcome_cases:
  "(isCheckmate G P c \<or> isStalemate G P c \<longrightarrow>
      outcome G P c = Some \<lparr>winner = Some (opposite (turn P))\<rparr>)
   \<and> (\<not> (isCheckmate G P c \<or> isStalemate G P c)
        \<and> (hasInsufficientMaterial P Red \<and> hasInsufficientMaterial P Black \<or> halfmoves P \<ge> 50)
      \<longrightarrow> outcome G P c = Some \<lparr>winner = None\<rparr>)
   \<and> (\<not> (isCheckmate G P c \<or> isStalemate G P c)
        \<and> \<not> (hasInsufficientMaterial P Red \<and> hasInsufficientMaterial P Black \<or> halfmoves P \<ge> 50)
      \<longrightarrow> outcome G P c = None)"
  by (auto simp: outcome_def isCheckmate_def isStalemate_def Let_def ctx_or_Some
        isInsufficientMaterial_def COLORS_def is50Moves_def)

theorem outcome_cases_witness:
  "isStalemate xiangqi_tables pos_stalemate None
   \<and> outcome xiangqi_tables pos_stalemate None = Some \<lparr>winner = Some Black\<rparr>
   \<and> isCheckmate xiangqi_tables pos_checkmate None
   \<and> outcome xiangqi_tables pos_checkmate None = Some \<lparr>winner = Some Black\<rparr>
   \<and> \<not> isCheckmate xiangqi_tables pos_kings None \<and> \<not> isStalemate xiangqi_tables pos_kings None
   \<and> hasInsufficientMaterial pos_kings Red \<and> hasInsufficientMaterial pos_kings Black
   \<and> outcome xiangqi_tables pos_kings None = Some \<lparr>winner = None\<rparr>
   \<and> \<not> isCheckmate xiangqi_tables pos_fifty None \<and> \<not> isStalemate xiangqi_tables pos_fifty None
   \<and> \<not> hasInsufficientMaterial pos_fifty Red \<and> halfmoves pos_fifty = 50
   \<and> outcome xiangqi_tables pos_fifty None = Some \<lparr>winner = None\<rparr>
   \<and> \<not> isCheckmate xiangqi_tables pos_chariot None \<and> \<not> isStalemate xiangqi_tables pos_chariot None
   \<and> \<not> hasInsufficientMaterial pos_chariot Red \<and> halfmoves pos_chariot = 7
   \<and> outcome xiangqi_tables pos_chariot None = None"
proof -
  have s: "isStalemate xiangqi_tables pos_stalemate None" "turn pos_stalemate = Red"
    by code_simp+
  have k: "\<not> isCheckmate xiangqi_tables pos_kings None" "\<not> isStalemate xiangqi_tables pos_kings None"
    "hasInsufficientMaterial pos_kings Red" "hasInsufficientMaterial pos_kings Black"
    by code_simp+
  have f: "\<not> isCheckmate xiangqi_tables pos_fifty None" "\<not> isStalemate xiangqi_tables pos_fifty None"
    "\<not> hasInsufficientMaterial pos_fifty Red" "halfmoves pos_fifty = 50"
    by code_simp+
  have r: "\<not> isCheckmate xiangqi_tables pos_chariot None" "\<not> isStalemate xiangqi_tables pos_chariot None"
    "\<not> hasInsufficientMaterial pos_chariot Red" "halfmoves pos_chariot = 7"
    by code_simp+
  have m: "isCheckmate xiangqi_tables pos_checkmate None" "turn pos_checkmate = Red"
    by code_simp+
  from outcome_cases[of xiangqi_tables pos_stalemate None] s
  have 1: "outcome xiangqi_tables pos_stalemate None = Some \<lparr>winner = Some Black\<rparr>" by simp
  from outcome_cases[of xiangqi_tables pos_checkmate None] m
  have 0: "outcome xiangqi_tables pos_checkmate None = Some \<lparr>winner = Some Black\<rparr>" by simp
  from outcome_cases[of xiangqi_tables pos_kings None] k
  have 2: "outcome xiangqi_tables pos_kings None = Some \<lparr>winner = None\<rparr>" by simp
  from outcome_cases[of xiangqi_tables pos_fifty None] f
  have 3: "outcome xiangqi_tables pos_fifty None = Some \<lparr>winner = None\<rparr>" by simp
  from outcome_cases[of xiangqi_tables pos_chariot None] r
  have 4: "outcome xiangqi_tables pos_chariot None = None" by simp
  from s m k f r 0 1 2 3 4 show ?thesis by simp
qed

section \<open>Validation of a setup\<close>

lemma validate_roles_None:
  "(\<forall>r \<in> set rs. \<not> violates G b c r) \<Longrightarrow> validate_roles G b c rs = None"
  by (induction rs) auto

lemma validate_roles_only:
  "r0 \<in> set rs \<Longrightarrow> violates G b c r0 \<Longrightarrow> (\<forall>r \<in> set rs. r \<noteq> r0 \<longrightarrow> \<not> violates G b c r)
   \<Longrightarrow> validate_roles G b c rs = Some (err r0)"
  by (induction rs) auto

lemma validate_colors_only:
  "c0 \<in> set cs \<Longrightarrow> validate_roles G b c0 ROLES = Some e
   \<Longrightarrow> (\<forall>c \<in> set cs. c \<noteq> c0 \<longrightarrow> validate_roles G b c ROLES = None)
   \<Longrightarrow> validate_colors G b cs = Some e"
  by (induction cs) auto

lemma validate_board_turn:
  assumes "board p = board q" and "turn p = turn q"
  shows "validate G p = validate G q"
  unfolding validate_def attackers_def assms by (rule refl)

lemma six_pawns_Pawns:
  assumes "kingOf (board s) (turn s) = Some k1"
    and "kingOf (board s) (opposite (turn s)) = Some k2"
    and "\<not> (squareFile k1 = squareFile k2 \<and> between G k1 k2 \<inter> occupied (board s) = {})"
    and "attackers G s k2 (turn s) (occupied (board s)) = {}"
    and "\<forall>c' r'. (c', r') \<noteq> (c, Pawn) \<longrightarrow> \<not> violates G (board s) c' r'"
    and "size_sq (pieces (board s) c Pawn) = 6"
  shows "validate G s = Inl Pawns"
proof -
  have ne: "occupied (board s) \<noteq> {}" using kingOf_occupied[OF assms(1)] by auto
  have v: "violates G (board s) c Pawn" using assms(6) by (simp add: violates_def)
  have "validate_roles G (board s) c ROLES = Some (err Pawn)"
    using v assms(5) by (intro validate_roles_only) (auto simp: all_roles)
  moreover have "\<forall>c' \<in> set COLORS. c' \<noteq> c \<longrightarrow> validate_roles G (board s) c' ROLES = None"
    using assms(5) by (auto intro!: validate_roles_None)
  ultimately have "validate_colors G (board s) COLORS = Some Pawns"
    using validate_colors_only[of c COLORS G "board s" Pawns] by (simp add: all_colors)
  with ne assms(1-4) show ?thesis by (simp add: validate_def)
qed

text \<open>
  C6. \<open>fromSetup\<close> fails with \<open>Empty\<close> on a board without pieces; with \<open>FacingKings\<close> when
  the two kings share a file and no piece stands between them; with \<open>Pawns\<close> when one
  colour has six pawns and every other check passes. It returns either the error of
  \<open>validate\<close> or, when \<open>validate\<close> succeeds, the position of the setup.
\<close>

theorem validate_boundaries:
  "(occupied (board s) = {} \<longrightarrow> fromSetup G s = Inl Empty)
   \<and> (\<forall>k1 k2. kingOf (board s) (turn s) = Some k1
              \<and> kingOf (board s) (opposite (turn s)) = Some k2
              \<and> squareFile k1 = squareFile k2
              \<and> between G k1 k2 \<inter> occupied (board s) = {}
        \<longrightarrow> fromSetup G s = Inl FacingKings)
   \<and> (\<forall>k1 k2 c. kingOf (board s) (turn s) = Some k1
              \<and> kingOf (board s) (opposite (turn s)) = Some k2
              \<and> \<not> (squareFile k1 = squareFile k2 \<and> between G k1 k2 \<inter> occupied (board s) = {})
              \<and> attackers G s k2 (turn s) (occupied (board s)) = {}
              \<and> (\<forall>c' r'. (c', r') \<noteq> (c, Pawn) \<longrightarrow> \<not> violates G (board s) c' r')
              \<and> size_sq (pieces (board s) c Pawn) = 6
        \<longrightarrow> fromSetup G s = Inl Pawns)
   \<and> ((\<exists>e. validate G (setupUnchecked s) = Inl e \<and> fromSetup G s = Inl e)
       \<or> (validate G (setupUnchecked s) = Inr () \<and> fromSetup G s = Inr (setupUnchecked s)))"
proof -
  have f: "fromSetup G s = (case validate G s of Inl e \<Rightarrow> Inl e | Inr u \<Rightarrow> Inr s)"
    by (simp add: fromSetup_def setupUnchecked_id)
  have 1: "occupied (board s) = {} \<longrightarrow> fromSetup G s = Inl Empty"
    by (simp add: f validate_def)
  have 2: "fromSetup G s = Inl FacingKings"
    if "kingOf (board s) (turn s) = Some k1 \<and> kingOf (board s) (opposite (turn s)) = Some k2
        \<and> squareFile k1 = squareFile k2 \<and> between G k1 k2 \<inter> occupied (board s) = {}" for k1 k2
  proof -
    have "occupied (board s) \<noteq> {}" using that kingOf_occupied[of "board s" "turn s" k1] by auto
    with that show ?thesis by (simp add: f validate_def)
  qed
  have 3: "fromSetup G s = Inl Pawns"
    if "kingOf (board s) (turn s) = Some k1
              \<and> kingOf (board s) (opposite (turn s)) = Some k2
              \<and> \<not> (squareFile k1 = squareFile k2 \<and> between G k1 k2 \<inter> occupied (board s) = {})
              \<and> attackers G s k2 (turn s) (occupied (board s)) = {}
              \<and> (\<forall>c' r'. (c', r') \<noteq> (c, Pawn) \<longrightarrow> \<not> violates G (board s) c' r')
              \<and> size_sq (pieces (board s) c Pawn) = 6" for k1 k2 c
    using six_pawns_Pawns[of s k1 k2 G c] that by (simp add: f)
  have 4: "(\<exists>e. validate G (setupUnchecked s) = Inl e \<and> fromSetup G s = Inl e)
       \<or> (validate G (setupUnchecked s) = Inr () \<and> fromSetup G s = Inr (setupUnchecked s))"
    by (cases "validate G s") (simp_all add: f setupUnchecked_id)
  from 1 2 3 4 show ?thesis by blast
qed

lemma six_pawns_others:
  "(c', r') \<noteq> (Red, Pawn) \<Longrightarrow> \<not> violates xiangqi_tables (board setup_six_pawns) c' r'"
  by (cases c'; cases r'; simp; code_simp)

theorem validate_boundaries_witness:
  "occupied (board setup_empty) = {}
   \<and> fromSetup xiangqi_tables setup_empty = Inl Empty
   \<and> kingOf (board setup_facing) (turn setup_facing) = Some 4
   \<and> kingOf (board setup_facing) (opposite (turn setup_facing)) = Some 85
   \<and> squareFile 4 = squareFile 85
   \<and> between xiangqi_tables 4 85 \<inter> occupied (board setup_facing) = {}
   \<and> fromSetup xiangqi_tables setup_facing = Inl FacingKings
   \<and> kingOf (board setup_six_pawns) (turn setup_six_pawns) = Some 4
   \<and> kingOf (board setup_six_pawns) (opposite (turn setup_six_pawns)) = Some 84
   \<and> squareFile 4 \<noteq> squareFile 84
   \<and> attackers xiangqi_tables setup_six_pawns 84 (turn setup_six_pawns)
        (occupied (board setup_six_pawns)) = {}
   \<and> size_sq (pieces (board setup_six_pawns) Red Pawn) = 6
   \<and> fromSetup xiangqi_tables setup_six_pawns = Inl Pawns
   \<and> validate xiangqi_tables (setupUnchecked pos_kings) = Inr ()
   \<and> fromSetup xiangqi_tables pos_kings = Inr (setupUnchecked pos_kings)"
proof -
  have e: "occupied (board setup_empty) = {}" by code_simp
  have f: "kingOf (board setup_facing) (turn setup_facing) = Some 4"
    "kingOf (board setup_facing) (opposite (turn setup_facing)) = Some 85"
    "squareFile 4 = squareFile 85"
    "between xiangqi_tables 4 85 \<inter> occupied (board setup_facing) = {}"
    by code_simp+
  have p: "kingOf (board setup_six_pawns) (turn setup_six_pawns) = Some 4"
    "kingOf (board setup_six_pawns) (opposite (turn setup_six_pawns)) = Some 84"
    "squareFile 4 \<noteq> squareFile 84"
    "attackers xiangqi_tables setup_six_pawns 84 (turn setup_six_pawns)
        (occupied (board setup_six_pawns)) = {}"
    "size_sq (pieces (board setup_six_pawns) Red Pawn) = 6"
    by code_simp+
  have o: "\<forall>c' r'. (c', r') \<noteq> (Red, Pawn) \<longrightarrow>
             \<not> violates xiangqi_tables (board setup_six_pawns) c' r'"
    using six_pawns_others by blast
  have v: "validate xiangqi_tables (setupUnchecked pos_kings) = Inr ()" by code_simp
  from validate_boundaries[of setup_empty xiangqi_tables] e
  have 1: "fromSetup xiangqi_tables setup_empty = Inl Empty" by simp
  from validate_boundaries[of setup_facing xiangqi_tables] f
  have 2: "fromSetup xiangqi_tables setup_facing = Inl FacingKings" by blast
  from validate_boundaries[of setup_six_pawns xiangqi_tables] p o
  have 3: "fromSetup xiangqi_tables setup_six_pawns = Inl Pawns" by blast
  from validate_boundaries[of pos_kings xiangqi_tables] v
  have 4: "fromSetup xiangqi_tables pos_kings = Inr (setupUnchecked pos_kings)" by simp
  from e f p v 1 2 3 4 show ?thesis by simp
qed

text \<open>
  C7. For a position that \<open>validate\<close> accepts, \<open>fromSetup\<close> on the result of \<open>toSetup\<close>
  succeeds, and its position equals the original one up to the move counters: same board,
  same side to move.
\<close>

theorem toSetup_roundtrip:
  assumes "validate G P = Inr ()"
  shows "\<exists>Q. fromSetup G (toSetup P) = Inr Q \<and> equalsIgnoreMoves P Q
             \<and> board Q = board P \<and> turn Q = turn P
             \<and> halfmoves Q = min (halfmoves P) 150
             \<and> fullmoves Q = min (max (fullmoves P) 1) 9999"
proof -
  have "validate G (toSetup P) = validate G P"
    by (rule validate_board_turn) (simp_all add: toSetup_def clone_board_def)
  with assms have "fromSetup G (toSetup P) = Inr (toSetup P)"
    by (simp add: fromSetup_def setupUnchecked_id)
  moreover have "equalsIgnoreMoves P (toSetup P)"
    by (simp add: equalsIgnoreMoves_def toSetup_def clone_board_def boardEquals_refl)
  ultimately show ?thesis
    by (intro exI[of _ "toSetup P"]) (simp add: toSetup_def clone_board_def)
qed

theorem toSetup_roundtrip_witness:
  "validate xiangqi_tables pos_stalemate = Inr ()
   \<and> (\<exists>Q. fromSetup xiangqi_tables (toSetup pos_stalemate) = Inr Q
          \<and> equalsIgnoreMoves pos_stalemate Q)"
proof -
  have h: "validate xiangqi_tables pos_stalemate = Inr ()" by code_simp
  from toSetup_roundtrip[OF h] h show ?thesis by blast
qed

end
